theory Spec2Isabelle
  imports Complex_Main "HOL-Library.Multiset" "HOL-Library.Word"
begin

section \<open>The table \<open>transacoes\<close> (financas8.py, lines 72-167)\<close>

text \<open>
  One row of the table created by \<open>init_transactions_db\<close>. The columns declared
  \<open>NOT NULL\<close> hold a value, the others are nullable (\<open>None\<close> is SQL NULL).
  \<open>valor\<close> is a REAL column; amounts are modelled as exact rationals, so the
  rounding of binary floating point is outside the model.
\<close>

record transacao =
  id_t :: int
  data :: string
  descricao :: string
  valor :: rat
  tipo :: string
  categoria :: "string option"
  username :: string
  responsavel :: "string option"
  banco :: "string option"
  forma_recebimento :: "string option"
  datas_parcelas_receita :: "string option"
  recorrente :: "string option"
  vezes_recorrencia :: "int option"
  status :: "string option"

text \<open>
  The database file: the rows of \<open>transacoes\<close> and the counter that
  \<open>AUTOINCREMENT\<close> keeps in \<open>sqlite_sequence\<close> (the largest id ever given out).
\<close>

record store =
  transacoes :: "transacao list"
  seq :: int

text \<open>\<open>SELECT SUM(valor) ...\<close>: NULL over no rows, the sum otherwise.\<close>

definition sql_sum :: "rat list \<Rightarrow> rat option" where
  "sql_sum vs = (if vs = [] then None else Some (sum_list vs))"

text \<open>Python's \<open>x or 0.0\<close>: \<open>None\<close> and \<open>0.0\<close> are both falsy.\<close>

definition or_zero :: "rat option \<Rightarrow> rat" where
  "or_zero r = (case r of None \<Rightarrow> 0 | Some x \<Rightarrow> if x = 0 then 0 else x)"

definition get_summary :: "string \<Rightarrow> store \<Rightarrow> rat \<times> rat \<times> rat" where
  "get_summary u db =
     (let total_receitas = or_zero (sql_sum (map valor
            (filter (\<lambda>r. username r = u \<and> tipo r = ''receita'') (transacoes db))));
          total_despesas_pagas = or_zero (sql_sum (map valor
            (filter (\<lambda>r. username r = u \<and> tipo r = ''despesa'' \<and> status r = Some ''Pago'')
               (transacoes db))));
          total_despesas_apagar = or_zero (sql_sum (map valor
            (filter (\<lambda>r. username r = u \<and> tipo r = ''despesa'' \<and> status r = Some ''A Pagar'')
               (transacoes db))))
      in (total_receitas, total_despesas_pagas, total_despesas_apagar))"

text \<open>The two balances of \<open>render_overview_dashboard\<close> (lines 285-287).\<close>

definition saldo_real :: "string \<Rightarrow> store \<Rightarrow> rat" where
  "saldo_real u db =
     (case get_summary u db of
        (total_receitas, total_despesas_pagas, total_despesas_apagar) \<Rightarrow>
          total_receitas - total_despesas_pagas)"

definition saldo_projetado :: "string \<Rightarrow> store \<Rightarrow> rat" where
  "saldo_projetado u db =
     (case get_summary u db of
        (total_receitas, total_despesas_pagas, total_despesas_apagar) \<Rightarrow>
          total_receitas - (total_despesas_pagas + total_despesas_apagar))"

section \<open>Writing to the table (financas8.py, lines 102-152 and 252-278)\<close>

text \<open>The exceptions of the Python code that the model keeps as values.\<close>

datatype error =
  IntegrityError | OperationalError | JSONDecodeError | ValueError | AttributeError | TypeError

text \<open>
  \<open>AUTOINCREMENT\<close>: the new id is one more than the largest id that ever existed in the
  table, which is the larger of the stored counter and the ids present.
\<close>

definition next_id :: "store \<Rightarrow> int" where
  "next_id db = fold max (map id_t (transacoes db)) (seq db) + 1"

text \<open>
  \<open>add_transaction\<close>: a single INSERT with no check of its own. The arguments are Python
  values, \<open>None\<close> becoming NULL; the only rejection is SQLite's, an \<open>IntegrityError\<close>
  when a \<open>NOT NULL\<close> column (username, data, descricao, valor, tipo) receives NULL, and
  then nothing is inserted. The foreign key on \<open>username\<close> is not enforced (the
  connection never turns \<open>PRAGMA foreign_keys\<close> on).
\<close>

definition add_transaction ::
  "string option \<Rightarrow> string option \<Rightarrow> string option \<Rightarrow> rat option \<Rightarrow> string option \<Rightarrow>
   string option \<Rightarrow> string option \<Rightarrow> string option \<Rightarrow> string option \<Rightarrow> string option \<Rightarrow>
   string option \<Rightarrow> int option \<Rightarrow> string option \<Rightarrow> store \<Rightarrow> error + store" where
  "add_transaction usr dat des vlr tp cat resp bnc forma parcelas rec vezes st db =
     (case (usr, dat, des, vlr, tp) of
        (Some u, Some d, Some ds, Some v, Some t) \<Rightarrow>
          Inr (db\<lparr>transacoes := transacoes db @
                  [\<lparr>id_t = next_id db, data = d, descricao = ds, valor = v, tipo = t,
                    categoria = cat, username = u, responsavel = resp, banco = bnc,
                    forma_recebimento = forma, datas_parcelas_receita = parcelas,
                    recorrente = rec, vezes_recorrencia = vezes, status = st\<rparr>],
                seq := next_id db\<rparr>)
      | _ \<Rightarrow> Inl IntegrityError)"

text \<open>
  The submit handler of \<open>render_unified_transaction_form\<close> (lines 252-278). The widgets
  give a string for the description and a float for the amount (the number input has
  \<open>min_value=0.01\<close>); \<open>not descricao\<close> holds for the empty string and \<open>not valor\<close> for
  zero. \<open>transaction_type\<close> is the radio button's choice and \<open>lower\<close> its
  \<open>.lower()\<close>.
\<close>

datatype transaction_type = Receita | Despesa

fun lower :: "transaction_type \<Rightarrow> string" where
  "lower Receita = ''receita''"
| "lower Despesa = ''despesa''"

datatype mensagem = Erro_preencha | Erro_ao_adicionar error | Sucesso

definition form_submitted ::
  "string \<Rightarrow> string \<Rightarrow> string \<Rightarrow> rat \<Rightarrow> transaction_type \<Rightarrow>
   string option \<Rightarrow> string option \<Rightarrow> string option \<Rightarrow> string option \<Rightarrow> string option \<Rightarrow>
   string option \<Rightarrow> int option \<Rightarrow> string option \<Rightarrow> store \<Rightarrow> mensagem \<times> store" where
  "form_submitted current_username data_str des vlr ttype cat resp bnc forma parcelas rec vezes
       st db =
     (if des = [] \<or> vlr = 0 then (Erro_preencha, db)
      else (case add_transaction (Some current_username) (Some data_str) (Some des) (Some vlr)
                   (Some (lower ttype)) cat resp bnc forma parcelas rec vezes st db of
              Inr db' \<Rightarrow> (Sucesso, db')
            | Inl e \<Rightarrow> (Erro_ao_adicionar e, db)))"







section \<open>The cash-flow projection (financas8.py, lines 583-638)\<close>

text \<open>
  A calendar date, as \<open>datetime.date\<close> has it. Dates compare by year, then month, then
  day.
\<close>

record date =
  year :: int
  month :: int
  day :: int

definition date_less :: "date \<Rightarrow> date \<Rightarrow> bool" where
  "date_less a b =
     (year a < year b
      \<or> (year a = year b \<and> (month a < month b \<or> (month a = month b \<and> day a < day b))))"

text \<open>
  The month key \<open>strftime("%Y-%m")\<close>, kept as the pair of year and month (two dates give
  the same text exactly when they give the same pair).
\<close>

type_synonym month_key = "int \<times> int"

definition strftime_Ym :: "date \<Rightarrow> month_key" where
  "strftime_Ym d = (year d, month d)"

text \<open>
  The month key of \<open>d + pd.DateOffset(months=i)\<close>: the offset moves the month forward
  \<open>i\<close> times, carrying into the year; the day it lands on does not enter the key.
\<close>

definition month_key_offset :: "date \<Rightarrow> nat \<Rightarrow> month_key" where
  "month_key_offset d i =
     (let t = year d * 12 + (month d - 1) + int i in (t div 12, t mod 12 + 1))"

text \<open>
  The function's argument is the data frame \<open>df_all_transactions\<close>; a row is modelled
  with the columns the projection reads, each cell as the loop finds it.
  \<^item> \<open>Datas Parcelas Receita\<close> holds \<open>None\<close> or the empty string (\<open>Vazio\<close>, falsy), a text
    that \<open>json.loads\<close> rejects (\<open>Json_invalido\<close>), or the JSON text of a list
    (\<open>Json_lista\<close>), whose entries are strings that \<open>strptime(_, "%Y-%m-%d")\<close> turns
    into a date (\<open>Data_str\<close>) or rejects (\<open>Str_invalida\<close>).
  \<^item> \<open>Vezes Recorrencia\<close> holds \<open>None\<close> (\<open>Nulo\<close>), a NaN, an integer, or a float (pandas
    turns an integer column with missing entries into floats).
\<close>

datatype parcela = Data_str date | Str_invalida

datatype celula_parcelas = Vazio | Json_invalido | Json_lista "parcela list"

datatype celula_vezes = Nulo | NaN | Inteiro int | Flutuante rat

record linha =
  Data :: date
  Valor :: rat
  Tipo :: string
  Forma_Recebimento :: "string option"
  Datas_Parcelas_Receita :: celula_parcelas
  Recorrente :: "string option"
  Vezes_Recorrencia :: celula_vezes
  Status :: "string option"

text \<open>The label of the single-payment plan, \<open>Parcela\<close> followed by \<open>Unica\<close> with an acute accent on the U, as its UTF-8 bytes.\<close>

definition Parcela_Unica :: string where
  "Parcela_Unica = ''Parcela '' @ [CHR 0xC3, CHR 0x9A] @ ''nica''"

text \<open>
  \<open>projection_data\<close>: a dictionary from month key to the three totals, kept as an
  association list in insertion order.
\<close>

record bucket =
  Receitas :: rat
  Despesas :: rat
  Saldo :: rat

type_synonym projection = "(month_key \<times> bucket) list"

definition dict_set :: "month_key \<Rightarrow> bucket \<Rightarrow> projection \<Rightarrow> projection" where
  "dict_set k v d =
     (if k \<in> set (map fst d) then map (\<lambda>(k', b). if k' = k then (k', v) else (k', b)) d
      else d @ [(k, v)])"

text \<open>\<open>projection_data[k]['Receitas'] += v\<close> and its twin, for a key that is present.\<close>

definition add_Receitas :: "month_key \<Rightarrow> rat \<Rightarrow> projection \<Rightarrow> projection" where
  "add_Receitas k v d =
     map (\<lambda>(k', b). if k' = k then (k', b\<lparr>Receitas := Receitas b + v\<rparr>) else (k', b)) d"

definition add_Despesas :: "month_key \<Rightarrow> rat \<Rightarrow> projection \<Rightarrow> projection" where
  "add_Despesas k v d =
     map (\<lambda>(k', b). if k' = k then (k', b\<lparr>Despesas := Despesas b + v\<rparr>) else (k', b)) d"

text \<open>Lines 585-590: the current month and the next three, every total at zero.\<close>

definition future_months :: "date \<Rightarrow> month_key list" where
  "future_months today = map (month_key_offset today) [0..<4]"

definition projection_init :: "date \<Rightarrow> projection" where
  "projection_init today =
     fold (\<lambda>month_key d. dict_set month_key \<lparr>Receitas = 0, Despesas = 0, Saldo = 0\<rparr> d)
       (future_months today) []"

text \<open>
  Lines 606-612: the loop over \<open>parcel_dates\<close>. \<open>strptime\<close> raises \<open>ValueError\<close> on a
  string it cannot read; each date of a month in the window and after \<open>current_date\<close> adds
  \<open>row['Valor'] / len(parcel_dates)\<close>.
\<close>

fun parcel_loop :: "date \<Rightarrow> rat \<Rightarrow> nat \<Rightarrow> parcela list \<Rightarrow> projection \<Rightarrow> error + projection"
  where
  "parcel_loop current_date v len [] d = Inr d"
| "parcel_loop current_date v len (Str_invalida # ps) d = Inl ValueError"
| "parcel_loop current_date v len (Data_str p_date # ps) d =
     parcel_loop current_date v len ps
       (if strftime_Ym p_date \<in> set (map fst d) \<and> date_less current_date p_date
        then add_Receitas (strftime_Ym p_date) (v / of_nat len) d else d)"

text \<open>Lines 598-612: a row with \<open>Tipo == 'receita'\<close>.\<close>

definition linha_receita :: "date \<Rightarrow> linha \<Rightarrow> projection \<Rightarrow> error + projection" where
  "linha_receita current_date row d =
     (let trans_month_key = strftime_Ym (Data row);
          d1 = (if trans_month_key \<in> set (map fst d)
                then add_Receitas trans_month_key (Valor row) d else d)
      in if Forma_Recebimento row \<notin> {Some Parcela_Unica, Some ''Mais de 6x''}
            \<and> Datas_Parcelas_Receita row \<noteq> Vazio
         then (case Datas_Parcelas_Receita row of
                 Json_lista parcel_dates \<Rightarrow>
                   parcel_loop current_date (Valor row) (length parcel_dates) parcel_dates d1
               | _ \<Rightarrow> Inl JSONDecodeError)
         else Inr d1)"

text \<open>
  Line 627, \<open>row['Vezes Recorrencia'] > 1\<close>: \<open>None > 1\<close> raises \<open>TypeError\<close>, a NaN
  compares false. Line 629, \<open>range(1, row['Vezes Recorrencia'])\<close>: only an integer is
  accepted.
\<close>

fun vezes_gt_1 :: "celula_vezes \<Rightarrow> error + bool" where
  "vezes_gt_1 Nulo = Inl TypeError"
| "vezes_gt_1 NaN = Inr False"
| "vezes_gt_1 (Inteiro n) = Inr (n > 1)"
| "vezes_gt_1 (Flutuante x) = Inr (x > 1)"

fun range_1 :: "celula_vezes \<Rightarrow> error + int list" where
  "range_1 (Inteiro n) = Inr [1..n - 1]"
| "range_1 _ = Inl TypeError"

text \<open>
  Lines 629-634: the loop over the later occurrences. Its first statement is
  \<open>future_date = trans_date + pd.DateOffset(months=i).date()\<close>: the attribute reference
  binds tighter than the sum, so \<open>.date\<close> is looked up on the \<open>DateOffset\<close> object, which
  has no such attribute, and the statement raises \<open>AttributeError\<close> before any date is
  computed. The rest of the body is never reached.
\<close>

fun recorrencia_loop :: "int list \<Rightarrow> projection \<Rightarrow> error + projection" where
  "recorrencia_loop [] d = Inr d"
| "recorrencia_loop (i # is) d = Inl AttributeError"

text \<open>Lines 614-634: a row with \<open>Tipo == 'despesa'\<close>.\<close>

definition linha_despesa :: "date \<Rightarrow> linha \<Rightarrow> projection \<Rightarrow> error + projection" where
  "linha_despesa today row d =
     (let trans_date = Data row;
          trans_month_key = strftime_Ym trans_date;
          d1 = (if Status row = Some ''A Pagar'' \<and> trans_month_key \<in> set (map fst d)
                then add_Despesas trans_month_key (Valor row) d
                else if Status row = Some ''Pago'' \<and> \<not> date_less trans_date (today\<lparr>day := 1\<rparr>)
                        \<and> trans_month_key \<in> set (map fst d)
                then add_Despesas trans_month_key (Valor row) d
                else d)
      in if Recorrente row = Some ''Sim'' then
           (case vezes_gt_1 (Vezes_Recorrencia row) of
              Inl e \<Rightarrow> Inl e
            | Inr False \<Rightarrow> Inr d1
            | Inr True \<Rightarrow>
                (case range_1 (Vezes_Recorrencia row) of
                   Inl e \<Rightarrow> Inl e
                 | Inr is \<Rightarrow> recorrencia_loop is d1))
         else Inr d1)"

text \<open>The body of the loop over the rows, and the loop (lines 594-634).\<close>

definition processa_linha :: "date \<Rightarrow> linha \<Rightarrow> projection \<Rightarrow> error + projection" where
  "processa_linha today row d =
     (if Tipo row = ''receita'' then linha_receita today row d
      else if Tipo row = ''despesa'' then linha_despesa today row d
      else Inr d)"

fun iterrows_loop :: "date \<Rightarrow> linha list \<Rightarrow> projection \<Rightarrow> error + projection" where
  "iterrows_loop today [] d = Inr d"
| "iterrows_loop today (row # rows) d =
     (case processa_linha today row d of
        Inl e \<Rightarrow> Inl e
      | Inr d' \<Rightarrow> iterrows_loop today rows d')"

text \<open>Lines 637-638: the balance of every month.\<close>

definition calcular_saldos :: "projection \<Rightarrow> projection" where
  "calcular_saldos d = map (\<lambda>(k, b). (k, b\<lparr>Saldo := Receitas b - Despesas b\<rparr>)) d"

text \<open>
  The projection as a whole. \<open>today\<close> stands for \<open>datetime.now().date()\<close>, which the code
  reads several times during one rendering; an exception raised by a row leaves the
  function, so no table is produced.
\<close>

definition projecao_fluxo_caixa :: "date \<Rightarrow> linha list \<Rightarrow> error + projection" where
  "projecao_fluxo_caixa today df =
     (case iterrows_loop today df (projection_init today) of
        Inl e \<Rightarrow> Inl e
      | Inr d \<Rightarrow> Inr (calcular_saldos d))"

text \<open>
  \<open>render_detailed_analysis_section\<close> returns at once on an empty frame (lines 527-529)
  and shows no projection; otherwise it reaches the projection. The charts drawn before
  it are not part of the model.
\<close>

definition render_detailed_analysis_section :: "date \<Rightarrow> linha list \<Rightarrow> error + projection option"
  where
  "render_detailed_analysis_section today df_all_transactions =
     (if df_all_transactions = [] then Inr None
      else (case projecao_fluxo_caixa today df_all_transactions of
              Inl e \<Rightarrow> Inl e
            | Inr proj \<Rightarrow> Inr (Some proj)))"

section \<open>Password hashing (financas8.py, lines 27-33; login.py, lines 5-11)\<close>

text \<open>
  \<open>hashlib.sha256\<close> is the SHA-256 of FIPS 180-4, written out here on 32-bit words so that
  \<open>make_hashes\<close> computes the digest the Python function returns.
\<close>

unbundle bit_operations_syntax

definition rotr :: "nat \<Rightarrow> 32 word \<Rightarrow> 32 word" where
  "rotr n x = drop_bit n x OR push_bit (32 - n) x"

definition Ch :: "32 word \<Rightarrow> 32 word \<Rightarrow> 32 word \<Rightarrow> 32 word" where
  "Ch x y z = (x AND y) XOR (NOT x AND z)"

definition Maj :: "32 word \<Rightarrow> 32 word \<Rightarrow> 32 word \<Rightarrow> 32 word" where
  "Maj x y z = (x AND y) XOR (x AND z) XOR (y AND z)"

definition Sigma0 :: "32 word \<Rightarrow> 32 word" where
  "Sigma0 x = rotr 2 x XOR rotr 13 x XOR rotr 22 x"

definition Sigma1 :: "32 word \<Rightarrow> 32 word" where
  "Sigma1 x = rotr 6 x XOR rotr 11 x XOR rotr 25 x"

definition sigma0 :: "32 word \<Rightarrow> 32 word" where
  "sigma0 x = rotr 7 x XOR rotr 18 x XOR drop_bit 3 x"

definition sigma1 :: "32 word \<Rightarrow> 32 word" where
  "sigma1 x = rotr 17 x XOR rotr 19 x XOR drop_bit 10 x"

text \<open>
  The constants of the standard: the first 32 bits of the fractional parts of the cube
  roots of the first sixty-four primes, and of the square roots of the first eight for
  the initial hash value. \<open>root_bits e k n r\<close> finds the integer \<open>e\<close>-th root of \<open>n\<close> bit by
  bit, from bit \<open>k - 1\<close> down; the root of \<open>p\<close> scaled by \<open>2 ^ 32\<close> is the root of
  \<open>p * 2 ^ (32 * e)\<close>, and the conversion to a word keeps its low 32 bits.
\<close>

definition primes64 :: "int list" where
  "primes64 =
     [2, 3, 5, 7, 11, 13, 17, 19, 23, 29, 31, 37, 41, 43, 47, 53, 59, 61, 67, 71, 73, 79, 83,
      89, 97, 101, 103, 107, 109, 113, 127, 131, 137, 139, 149, 151, 157, 163, 167, 173, 179,
      181, 191, 193, 197, 199, 211, 223, 227, 229, 233, 239, 241, 251, 257, 263, 269, 271, 277,
      281, 283, 293, 307, 311]"

fun root_bits :: "nat \<Rightarrow> nat \<Rightarrow> int \<Rightarrow> int \<Rightarrow> int" where
  "root_bits e 0 n r = r"
| "root_bits e (Suc k) n r =
     (if (r + 2 ^ k) ^ e \<le> n then root_bits e k n (r + 2 ^ k) else root_bits e k n r)"

definition frac_root :: "nat \<Rightarrow> int \<Rightarrow> 32 word" where
  "frac_root e p = of_int (root_bits e 36 (p * 2 ^ (32 * e)) 0)"

definition K256 :: "32 word list" where
  "K256 = map (frac_root 3) primes64"

definition H0 :: "32 word list" where
  "H0 = map (frac_root 2) (take 8 primes64)"

text \<open>
  Padding: the byte 0x80, zero bytes up to 56 modulo 64, and the length of the message in
  bits as eight bytes, most significant first.
\<close>

definition length_bytes :: "nat \<Rightarrow> 8 word list" where
  "length_bytes n =
     map (\<lambda>i. ucast (drop_bit (8 * (7 - i)) (of_nat (8 * n) :: 64 word))) [0..<8]"

definition pad :: "8 word list \<Rightarrow> 8 word list" where
  "pad m = m @ [0x80] @ replicate ((119 - length m mod 64) mod 64) 0
             @ length_bytes (length m)"

fun be_words :: "8 word list \<Rightarrow> 32 word list" where
  "be_words (a # b # c # d # bs) =
     (push_bit 24 (ucast a) OR push_bit 16 (ucast b) OR push_bit 8 (ucast c) OR ucast d)
     # be_words bs"
| "be_words _ = []"

text \<open>The message schedule: sixteen words of the block extended to sixty-four.\<close>

fun schedule :: "nat \<Rightarrow> 32 word list \<Rightarrow> 32 word list" where
  "schedule 0 w = w"
| "schedule (Suc n) w =
     schedule n (w @ [sigma1 (w ! (length w - 2)) + w ! (length w - 7)
                      + sigma0 (w ! (length w - 15)) + w ! (length w - 16)])"

fun sha_round :: "32 word \<times> 32 word \<Rightarrow> 32 word list \<Rightarrow> 32 word list" where
  "sha_round (k, w) [a, b, c, d, e, f, g, h] =
     (let t1 = h + Sigma1 e + Ch e f g + k + w;
          t2 = Sigma0 a + Maj a b c
      in [t1 + t2, a, b, c, d + t1, e, f, g])"
| "sha_round _ s = s"

definition compress :: "32 word list \<Rightarrow> 32 word list \<Rightarrow> 32 word list" where
  "compress block h = map2 (+) h (fold sha_round (zip K256 (schedule 48 block)) h)"

fun chunks :: "nat \<Rightarrow> 'a list \<Rightarrow> 'a list list" where
  "chunks 0 xs = []"
| "chunks (Suc n) xs = take 16 xs # chunks n (drop 16 xs)"

definition sha256 :: "8 word list \<Rightarrow> 32 word list" where
  "sha256 m =
     (let ws = be_words (pad m) in fold compress (chunks (length ws div 16) ws) H0)"

text \<open>\<open>hexdigest\<close>: the 32 bytes of the digest as 64 lower-case hexadecimal digits.\<close>

definition hex_digit :: "32 word \<Rightarrow> char" where
  "hex_digit n = ''0123456789abcdef'' ! unat n"

definition hex_word :: "32 word \<Rightarrow> string" where
  "hex_word w = map (\<lambda>i. hex_digit (drop_bit (4 * (7 - i)) w AND 15)) [0..<8]"

definition hexdigest :: "32 word list \<Rightarrow> string" where
  "hexdigest h = concat (map hex_word h)"

text \<open>
  \<open>str.encode\<close>: a password is held as the bytes of its UTF-8 encoding (a \<open>char\<close> is a
  byte), and encoding hands those bytes over.
\<close>

definition str_encode :: "string \<Rightarrow> 8 word list" where
  "str_encode s = map of_char s"

definition make_hashes :: "string \<Rightarrow> string" where
  "make_hashes password = hexdigest (sha256 (str_encode password))"


section \<open>What a row contributes to a month\<close>

text \<open>
  Auxiliary functions, used to state what the loop computes: adding a month-indexed amount
  to every bucket, the number of instalment dates of a row that count for a month, whether
  a row is processed without an exception, and the amounts a row adds to the income and
  to the expenses of a month.
\<close>

definition soma_R :: "(month_key \<Rightarrow> rat) \<Rightarrow> projection \<Rightarrow> projection" where
  "soma_R f d = map (\<lambda>(k, b). (k, b\<lparr>Receitas := Receitas b + f k\<rparr>)) d"

definition soma_D :: "(month_key \<Rightarrow> rat) \<Rightarrow> projection \<Rightarrow> projection" where
  "soma_D f d = map (\<lambda>(k, b). (k, b\<lparr>Despesas := Despesas b + f k\<rparr>)) d"

fun conta_parcelas :: "date \<Rightarrow> month_key \<Rightarrow> parcela list \<Rightarrow> nat" where
  "conta_parcelas c k [] = 0"
| "conta_parcelas c k (Str_invalida # ps) = conta_parcelas c k ps"
| "conta_parcelas c k (Data_str p # ps) =
     (if strftime_Ym p = k \<and> date_less c p then 1 else 0) + conta_parcelas c k ps"

definition expande :: "linha \<Rightarrow> bool" where
  "expande row = (Forma_Recebimento row \<notin> {Some Parcela_Unica, Some ''Mais de 6x''}
                  \<and> Datas_Parcelas_Receita row \<noteq> Vazio)"

definition linha_ok :: "linha \<Rightarrow> bool" where
  "linha_ok row =
     (if Tipo row = ''receita'' then
        (if expande row then
           (case Datas_Parcelas_Receita row of
              Json_lista ps \<Rightarrow> Str_invalida \<notin> set ps
            | _ \<Rightarrow> False)
         else True)
      else if Tipo row = ''despesa'' then
        (if Recorrente row = Some ''Sim'' then vezes_gt_1 (Vezes_Recorrencia row) = Inr False
         else True)
      else True)"

definition receitas_de :: "date \<Rightarrow> linha \<Rightarrow> month_key \<Rightarrow> rat" where
  "receitas_de today row k =
     (if Tipo row = ''receita'' then
        (if k = strftime_Ym (Data row) then Valor row else 0)
        + (if expande row then
             (case Datas_Parcelas_Receita row of
                Json_lista ps \<Rightarrow> Valor row / of_nat (length ps) * of_nat (conta_parcelas today k ps)
              | _ \<Rightarrow> 0)
           else 0)
      else 0)"

definition despesas_de :: "date \<Rightarrow> linha \<Rightarrow> month_key \<Rightarrow> rat" where
  "despesas_de today row k =
     (if Tipo row = ''despesa'' \<and> Tipo row \<noteq> ''receita'' \<and> k = strftime_Ym (Data row)
         \<and> (Status row = Some ''A Pagar''
              \<or> (Status row = Some ''Pago'' \<and> \<not> date_less (Data row) (today\<lparr>day := 1\<rparr>)))
      then Valor row else 0)"

text \<open>Example rows of the data frame, and an example day.\<close>

definition hoje :: date where
  "hoje = \<lparr>year = 2024, month = 1, day = 15\<rparr>"

definition receita_df :: "date \<Rightarrow> rat \<Rightarrow> string \<Rightarrow> celula_parcelas \<Rightarrow> linha" where
  "receita_df dt v forma parcelas =
     \<lparr>Data = dt, Valor = v, Tipo = ''receita'', Forma_Recebimento = Some forma,
      Datas_Parcelas_Receita = parcelas, Recorrente = None, Vezes_Recorrencia = NaN,
      Status = None\<rparr>"

definition despesa_df :: "date \<Rightarrow> rat \<Rightarrow> string \<Rightarrow> string \<Rightarrow> celula_vezes \<Rightarrow> linha" where
  "despesa_df dt v st rec vezes =
     \<lparr>Data = dt, Valor = v, Tipo = ''despesa'', Forma_Recebimento = None,
      Datas_Parcelas_Receita = Vazio, Recorrente = Some rec, Vezes_Recorrencia = vezes,
      Status = Some st\<rparr>"

text \<open>
  The negative label of the recurrence radio button (\<open>Nao\<close> with a tilde on the a), as
  its UTF-8 bytes (a \<open>char\<close> is a byte; two Python strings are equal exactly when their
  encodings are).
\<close>

definition Nao :: string where
  "Nao = ''N'' @ [CHR 0xC3, CHR 0xA3] @ ''o''"

text \<open>Example rows used to evaluate the operations on concrete inputs.\<close>

definition despesa_exemplo :: "int \<Rightarrow> string \<Rightarrow> rat \<Rightarrow> string option \<Rightarrow> transacao" where
  "despesa_exemplo i u v st =
     \<lparr>id_t = i, data = ''2024-01-15'', descricao = ''Aluguel'', valor = v, tipo = ''despesa'',
      categoria = Some ''Moradia'', username = u, responsavel = None, banco = None,
      forma_recebimento = None, datas_parcelas_receita = None,
      recorrente = Some Nao, vezes_recorrencia = None, status = st\<rparr>"

definition receita_exemplo :: "int \<Rightarrow> string \<Rightarrow> rat \<Rightarrow> transacao" where
  "receita_exemplo i u v =
     \<lparr>id_t = i, data = ''2024-01-10'', descricao = ''Venda'', valor = v, tipo = ''receita'',
      categoria = Some ''Venda de Produto'', username = u, responsavel = Some ''Higo'',
      banco = Some ''Outro'', forma_recebimento = Some ''2x'',
      datas_parcelas_receita = None, recorrente = None, vezes_recorrencia = None,
      status = None\<rparr>"

definition db_exemplo :: store where
  "db_exemplo =
     \<lparr>transacoes = [receita_exemplo 1 ''alice'' 1000,
                     despesa_exemplo 2 ''alice'' 300 (Some ''Pago''),
                     despesa_exemplo 3 ''alice'' 50 (Some ''A Pagar''),
                     despesa_exemplo 4 ''carol'' 70 (Some ''Pago''),
                     despesa_exemplo 5 ''alice'' 20 None],
      seq = 5\<rparr>"

section \<open>Properties of the summary\<close>

lemma or_zero_sql_sum: "or_zero (sql_sum vs) = sum_list vs"
  by (simp add: or_zero_def sql_sum_def)

lemma sum_filter_none:
  "(\<forall>r \<in> set xs. \<not> P r) \<Longrightarrow> sum_list (map f (filter P xs)) = (0::rat)"
  by (induction xs) auto

text \<open>
  Claim C7. The paid-expense total of \<open>get_summary\<close> is the sum of \<open>valor\<close> over
  exactly the rows of that user with \<open>tipo = 'despesa'\<close> and \<open>status = 'Pago'\<close>, and
  each of the three totals is 0 (a number, never NULL) when no row matches its query.
\<close>

theorem get_summary_sums:
  "fst (snd (get_summary u db)) =
     sum_list (map valor (filter (\<lambda>r. tipo r = ''despesa'' \<and> status r = Some ''Pago''
                                        \<and> username r = u) (transacoes db)))
   \<and> ((\<forall>r \<in> set (transacoes db). \<not> (username r = u \<and> tipo r = ''receita''))
        \<longrightarrow> fst (get_summary u db) = 0)
   \<and> ((\<forall>r \<in> set (transacoes db).
          \<not> (username r = u \<and> tipo r = ''despesa'' \<and> status r = Some ''Pago''))
        \<longrightarrow> fst (snd (get_summary u db)) = 0)
   \<and> ((\<forall>r \<in> set (transacoes db).
          \<not> (username r = u \<and> tipo r = ''despesa'' \<and> status r = Some ''A Pagar''))
        \<longrightarrow> snd (snd (get_summary u db)) = 0)"
proof -
  have eq: "(\<lambda>r. username r = u \<and> tipo r = ''despesa'' \<and> status r = Some ''Pago'')
          = (\<lambda>r. tipo r = ''despesa'' \<and> status r = Some ''Pago'' \<and> username r = u)"
    by auto
  have a: "fst (snd (get_summary u db)) =
     sum_list (map valor (filter (\<lambda>r. tipo r = ''despesa'' \<and> status r = Some ''Pago''
                                        \<and> username r = u) (transacoes db)))"
    by (simp add: get_summary_def Let_def or_zero_sql_sum eq)
  have b: "(\<forall>r \<in> set (transacoes db). \<not> (username r = u \<and> tipo r = ''receita''))
        \<longrightarrow> fst (get_summary u db) = 0"
    by (simp add: get_summary_def Let_def or_zero_sql_sum sum_filter_none)
  have c: "(\<forall>r \<in> set (transacoes db).
          \<not> (username r = u \<and> tipo r = ''despesa'' \<and> status r = Some ''Pago''))
        \<longrightarrow> fst (snd (get_summary u db)) = 0"
    by (simp add: get_summary_def Let_def or_zero_sql_sum sum_filter_none)
  have d: "(\<forall>r \<in> set (transacoes db).
          \<not> (username r = u \<and> tipo r = ''despesa'' \<and> status r = Some ''A Pagar''))
        \<longrightarrow> snd (snd (get_summary u db)) = 0"
    by (simp add: get_summary_def Let_def or_zero_sql_sum sum_filter_none)
  from a b c d show ?thesis by blast
qed

theorem get_summary_sums_witness:
  "fst (snd (get_summary ''alice'' db_exemplo)) = 300
   \<and> filter (\<lambda>r. username r = ''bob'') (transacoes db_exemplo) = []
   \<and> get_summary ''bob'' db_exemplo = (0, 0, 0)"
  using get_summary_sums [of "''alice''" db_exemplo] get_summary_sums [of "''bob''" db_exemplo]
  by (simp add: db_exemplo_def despesa_exemplo_def receita_exemplo_def get_summary_def
      sql_sum_def or_zero_def)

text \<open>
  Claim C9. An expense row whose status is neither \<open>'Pago'\<close> nor \<open>'A Pagar'\<close> (NULL,
  for instance) enters none of the totals of \<open>get_summary\<close>: with or without the row
  the three totals are the same, and so are \<open>saldo_real\<close> and \<open>saldo_projetado\<close>, which
  therefore do not account for the expense at all.
\<close>

theorem get_summary_ignores_other_status:
  assumes "tipo r = ''despesa''"
    and "status r \<noteq> Some ''Pago''" and "status r \<noteq> Some ''A Pagar''"
  shows "get_summary u (db\<lparr>transacoes := xs @ r # ys\<rparr>) = get_summary u (db\<lparr>transacoes := xs @ ys\<rparr>)
       \<and> saldo_real u (db\<lparr>transacoes := xs @ r # ys\<rparr>) = saldo_real u (db\<lparr>transacoes := xs @ ys\<rparr>)
       \<and> saldo_projetado u (db\<lparr>transacoes := xs @ r # ys\<rparr>)
           = saldo_projetado u (db\<lparr>transacoes := xs @ ys\<rparr>)"
  using assms by (simp add: get_summary_def saldo_real_def saldo_projetado_def)

theorem get_summary_ignores_other_status_witness:
  "tipo (despesa_exemplo 5 ''alice'' 20 None) = ''despesa''
   \<and> status (despesa_exemplo 5 ''alice'' 20 None) \<noteq> Some ''Pago''
   \<and> status (despesa_exemplo 5 ''alice'' 20 None) \<noteq> Some ''A Pagar''
   \<and> get_summary ''alice'' db_exemplo = (1000, 300, 50)
   \<and> saldo_projetado ''alice'' db_exemplo = 650"
  using get_summary_ignores_other_status [where r = "despesa_exemplo 5 ''alice'' 20 None"
      and u = "''alice''" and db = db_exemplo and xs = "take 4 (transacoes db_exemplo)"
      and ys = "[]"]
  by (simp add: db_exemplo_def despesa_exemplo_def receita_exemplo_def get_summary_def
      saldo_projetado_def sql_sum_def or_zero_def)

section \<open>Properties of the write operations\<close>





text \<open>
  Claim C5, as amended. The validation lives in the form, not in the store: the submit
  handler rejects an empty description or a zero amount and inserts nothing; for any other
  description and amount it inserts exactly one row, with the values given.
  \<open>add_transaction\<close> itself rejects only a missing (NULL) description or amount, through
  the \<open>NOT NULL\<close> constraint, and whenever it succeeds the table has one row more.
\<close>

theorem create_validation:
  "((des = [] \<or> vlr = 0) \<longrightarrow>
      form_submitted current_username data_str des vlr ttype cat resp bnc forma parcelas rec
        vezes st db = (Erro_preencha, db))
   \<and> (des \<noteq> [] \<and> vlr \<noteq> 0 \<longrightarrow>
      form_submitted current_username data_str des vlr ttype cat resp bnc forma parcelas rec
        vezes st db =
      (Sucesso, db\<lparr>transacoes := transacoes db @
                  [\<lparr>id_t = next_id db, data = data_str, descricao = des, valor = vlr,
                    tipo = lower ttype, categoria = cat, username = current_username,
                    responsavel = resp, banco = bnc, forma_recebimento = forma,
                    datas_parcelas_receita = parcelas, recorrente = rec,
                    vezes_recorrencia = vezes, status = st\<rparr>],
                seq := next_id db\<rparr>))
   \<and> (des_arg = None \<or> vlr_arg = None \<longrightarrow>
      add_transaction usr dat des_arg vlr_arg tp cat resp bnc forma parcelas rec vezes st db
        = Inl IntegrityError)
   \<and> (\<forall>db'. add_transaction usr dat des_arg vlr_arg tp cat resp bnc forma parcelas rec vezes st db
        = Inr db' \<longrightarrow> length (transacoes db') = length (transacoes db) + 1)"
  by (auto simp: form_submitted_def add_transaction_def split: option.splits)

theorem create_validation_witness:
  "form_submitted ''alice'' ''2024-01-15'' [] 10 Despesa None None None None None None None None
      db_exemplo = (Erro_preencha, db_exemplo)
   \<and> form_submitted ''alice'' ''2024-01-15'' ''Luz'' 0 Despesa None None None None None None None
      None db_exemplo = (Erro_preencha, db_exemplo)
   \<and> fst (form_submitted ''alice'' ''2024-01-15'' ''Luz'' 10 Despesa None None None None None None
      None None db_exemplo) = Sucesso
   \<and> map id_t (transacoes (snd (form_submitted ''alice'' ''2024-01-15'' ''Luz'' 10 Despesa None None
      None None None None None None db_exemplo))) = [1, 2, 3, 4, 5, 6]
   \<and> add_transaction (Some ''alice'') (Some ''2024-01-15'') None (Some 10) (Some ''despesa'')
        None None None None None None None None db_exemplo = Inl IntegrityError"
  using create_validation [of "[]" 10 "''alice''" "''2024-01-15''" Despesa None None None None None
      None None None db_exemplo None "Some 10" "Some ''alice''" "Some ''2024-01-15''"
      "Some ''despesa''"]
    create_validation [of "''Luz''" 0 "''alice''" "''2024-01-15''" Despesa None None None None None
      None None None db_exemplo None "Some 10" "Some ''alice''" "Some ''2024-01-15''"
      "Some ''despesa''"]
    create_validation [of "''Luz''" 10 "''alice''" "''2024-01-15''" Despesa None None None None None
      None None None db_exemplo None "Some 10" "Some ''alice''" "Some ''2024-01-15''"
      "Some ''despesa''"]
  by (simp add: db_exemplo_def despesa_exemplo_def receita_exemplo_def next_id_def)

text \<open>
  The claim as stated fails on \<open>add_transaction\<close>: an empty description and a negative
  amount are inserted like any other values.
\<close>

theorem create_unvalidated_counterexample:
  "add_transaction (Some ''alice'') (Some ''2024-01-15'') (Some []) (Some (- 5))
     (Some ''despesa'') None None None None None None None None \<lparr>transacoes = [], seq = 0\<rparr>
   = Inr \<lparr>transacoes =
            [\<lparr>id_t = 1, data = ''2024-01-15'', descricao = [], valor = - 5, tipo = ''despesa'',
              categoria = None, username = ''alice'', responsavel = None, banco = None,
              forma_recebimento = None, datas_parcelas_receita = None, recorrente = None,
              vezes_recorrencia = None, status = None\<rparr>],
          seq = 1\<rparr>"
  by (simp add: add_transaction_def next_id_def)

section \<open>The loop over the rows, row by row\<close>

lemma keys_soma_R [simp]: "map fst (soma_R f d) = map fst d"
  by (induction d) (auto simp: soma_R_def)

lemma keys_soma_D [simp]: "map fst (soma_D f d) = map fst d"
  by (induction d) (auto simp: soma_D_def)

lemma soma_R_zero: "(\<forall>k \<in> set (map fst d). f k = 0) \<Longrightarrow> soma_R f d = d"
  by (induction d) (auto simp: soma_R_def)

lemma soma_D_zero: "(\<forall>k \<in> set (map fst d). f k = 0) \<Longrightarrow> soma_D f d = d"
  by (induction d) (auto simp: soma_D_def)

lemma soma_R_soma_R: "soma_R f (soma_R g d) = soma_R (\<lambda>k. g k + f k) d"
  by (induction d) (auto simp: soma_R_def add.assoc)

lemma soma_D_soma_D: "soma_D f (soma_D g d) = soma_D (\<lambda>k. g k + f k) d"
  by (induction d) (auto simp: soma_D_def add.assoc)

lemma soma_R_soma_D: "soma_R f (soma_D g d) = soma_D g (soma_R f d)"
  by (induction d) (auto simp: soma_R_def soma_D_def)

lemma guarded_add_Receitas:
  "(if key \<in> set (map fst d) \<and> c then add_Receitas key x d else d)
   = soma_R (\<lambda>k. if k = key \<and> c then x else 0) d"
proof (cases "key \<in> set (map fst d) \<and> c")
  case True
  then show ?thesis by (auto simp: add_Receitas_def soma_R_def)
next
  case False
  then have "soma_R (\<lambda>k. if k = key \<and> c then x else 0) d = d"
    by (intro soma_R_zero) auto
  with False show ?thesis by auto
qed

lemma guarded_add_Despesas:
  "(if key \<in> set (map fst d) \<and> c then add_Despesas key x d else d)
   = soma_D (\<lambda>k. if k = key \<and> c then x else 0) d"
proof (cases "key \<in> set (map fst d) \<and> c")
  case True
  then show ?thesis by (auto simp: add_Despesas_def soma_D_def)
next
  case False
  then have "soma_D (\<lambda>k. if k = key \<and> c then x else 0) d = d"
    by (intro soma_D_zero) auto
  with False show ?thesis by auto
qed

lemma parcel_loop_ok:
  "Str_invalida \<notin> set ps \<Longrightarrow>
   parcel_loop c v n ps d = Inr (soma_R (\<lambda>k. v / of_nat n * of_nat (conta_parcelas c k ps)) d)"
proof (induction ps arbitrary: d)
  case Nil
  then show ?case by (simp add: soma_R_zero)
next
  case (Cons p ps)
  then obtain pd where p: "p = Data_str pd" by (cases p) auto
  have "parcel_loop c v n (p # ps) d =
      parcel_loop c v n ps (soma_R (\<lambda>k. if k = strftime_Ym pd \<and> date_less c pd then v / of_nat n else 0) d)"
    unfolding p parcel_loop.simps guarded_add_Receitas ..
  also have "\<dots> = Inr (soma_R (\<lambda>k. v / of_nat n * of_nat (conta_parcelas c k ps))
       (soma_R (\<lambda>k. if k = strftime_Ym pd \<and> date_less c pd then v / of_nat n else 0) d))"
    using Cons by simp
  also have "\<dots> = Inr (soma_R (\<lambda>k. v / of_nat n * of_nat (conta_parcelas c k (p # ps))) d)"
    unfolding soma_R_soma_R p
    by (rule arg_cong[where f=Inr], rule arg_cong[where f="\<lambda>f. soma_R f d"])
       (auto simp: fun_eq_iff algebra_simps)
  finally show ?case .
qed


lemma guarded_add_Receitas_key:
  "(if key \<in> set (map fst d) then add_Receitas key x d else d)
   = soma_R (\<lambda>k. if k = key then x else 0) d"
  using guarded_add_Receitas [of key d True x] by simp

lemma linha_receita_ok:
  assumes "Tipo row = ''receita''" and "linha_ok row"
  shows "linha_receita today row d = Inr (soma_R (receitas_de today row) d)"
proof (cases "expande row")
  case False
  then have "linha_receita today row d
      = Inr (soma_R (\<lambda>k. if k = strftime_Ym (Data row) then Valor row else 0) d)"
    unfolding linha_receita_def Let_def guarded_add_Receitas_key
    by (auto simp: expande_def)
  moreover have "receitas_de today row
      = (\<lambda>k. if k = strftime_Ym (Data row) then Valor row else 0)"
    using False assms by (auto simp: receitas_de_def fun_eq_iff)
  ultimately show ?thesis by simp
next
  case True
  with assms obtain ps where ps: "Datas_Parcelas_Receita row = Json_lista ps"
      and ok: "Str_invalida \<notin> set ps"
    by (auto simp: linha_ok_def split: celula_parcelas.splits)
  have "linha_receita today row d
      = parcel_loop today (Valor row) (length ps) ps
          (soma_R (\<lambda>k. if k = strftime_Ym (Data row) then Valor row else 0) d)"
    using True unfolding linha_receita_def Let_def guarded_add_Receitas_key
    by (auto simp: expande_def ps)
  also have "\<dots> = Inr (soma_R (\<lambda>k. (if k = strftime_Ym (Data row) then Valor row else 0)
        + Valor row / of_nat (length ps) * of_nat (conta_parcelas today k ps)) d)"
    by (simp add: parcel_loop_ok [OF ok] soma_R_soma_R)
  also have "(\<lambda>k. (if k = strftime_Ym (Data row) then Valor row else 0)
        + Valor row / of_nat (length ps) * of_nat (conta_parcelas today k ps))
      = receitas_de today row"
    using True assms by (auto simp: receitas_de_def fun_eq_iff ps)
  finally show ?thesis .
qed

lemma linha_despesa_ok:
  assumes "Tipo row = ''despesa''" and "Tipo row \<noteq> ''receita''" and "linha_ok row"
  shows "linha_despesa today row d = Inr (soma_D (despesas_de today row) d)"
proof -
  let ?k = "strftime_Ym (Data row)"
  let ?c = "Status row = Some ''A Pagar''
            \<or> (Status row = Some ''Pago'' \<and> \<not> date_less (Data row) (today\<lparr>day := 1\<rparr>))"
  have d1: "(if Status row = Some ''A Pagar'' \<and> ?k \<in> set (map fst d)
             then add_Despesas ?k (Valor row) d
             else if Status row = Some ''Pago'' \<and> \<not> date_less (Data row) (today\<lparr>day := 1\<rparr>)
                     \<and> ?k \<in> set (map fst d)
             then add_Despesas ?k (Valor row) d
             else d) = soma_D (despesas_de today row) d"
  proof -
    have "(if Status row = Some ''A Pagar'' \<and> ?k \<in> set (map fst d)
             then add_Despesas ?k (Valor row) d
             else if Status row = Some ''Pago'' \<and> \<not> date_less (Data row) (today\<lparr>day := 1\<rparr>)
                     \<and> ?k \<in> set (map fst d)
             then add_Despesas ?k (Valor row) d
             else d) = (if ?k \<in> set (map fst d) \<and> ?c then add_Despesas ?k (Valor row) d else d)"
      by auto
    also have "\<dots> = soma_D (\<lambda>k. if k = ?k \<and> ?c then Valor row else 0) d"
      by (rule guarded_add_Despesas)
    also have "(\<lambda>k. if k = ?k \<and> ?c then Valor row else 0) = despesas_de today row"
      using assms by (auto simp: despesas_de_def fun_eq_iff)
    finally show ?thesis .
  qed
  have rec: "Recorrente row = Some ''Sim'' \<Longrightarrow> vezes_gt_1 (Vezes_Recorrencia row) = Inr False"
    using assms by (auto simp: linha_ok_def split: if_splits)
  show ?thesis
    unfolding linha_despesa_def Let_def d1
    using rec by auto
qed

lemma processa_linha_ok:
  assumes "linha_ok row"
  shows "processa_linha today row d
         = Inr (soma_D (despesas_de today row) (soma_R (receitas_de today row) d))"
proof -
  consider (r) "Tipo row = ''receita''"
    | (d) "Tipo row \<noteq> ''receita''" "Tipo row = ''despesa''"
    | (o) "Tipo row \<noteq> ''receita''" "Tipo row \<noteq> ''despesa''"
    by blast
  then show ?thesis
  proof cases
    case r
    then have "despesas_de today row = (\<lambda>k. 0)"
      by (auto simp: despesas_de_def fun_eq_iff)
    with r assms show ?thesis
      by (simp add: processa_linha_def linha_receita_ok soma_D_zero)
  next
    case d
    then have "receitas_de today row = (\<lambda>k. 0)"
      by (auto simp: receitas_de_def fun_eq_iff)
    with d assms show ?thesis
      by (simp add: processa_linha_def linha_despesa_ok soma_R_zero)
  next
    case o
    then have "receitas_de today row = (\<lambda>k. 0)" "despesas_de today row = (\<lambda>k. 0)"
      by (auto simp: receitas_de_def despesas_de_def fun_eq_iff)
    with o show ?thesis
      by (simp add: processa_linha_def soma_R_zero soma_D_zero)
  qed
qed


lemma iterrows_loop_ok:
  "list_all linha_ok rows \<Longrightarrow>
   iterrows_loop today rows d =
     Inr (soma_D (\<lambda>k. sum_list (map (\<lambda>r. despesas_de today r k) rows))
           (soma_R (\<lambda>k. sum_list (map (\<lambda>r. receitas_de today r k) rows)) d))"
proof (induction rows arbitrary: d)
  case Nil
  then show ?case by (simp add: soma_R_zero soma_D_zero)
next
  case (Cons row rows)
  then have ok: "linha_ok row" and oks: "list_all linha_ok rows" by simp_all
  show ?case
    by (simp add: processa_linha_ok [OF ok] Cons.IH [OF oks] soma_R_soma_D soma_R_soma_R
        soma_D_soma_D)
qed


lemma month_key_offset_inj:
  assumes "month_key_offset d i = month_key_offset d j"
  shows "i = j"
proof -
  let ?b = "year d * 12 + (month d - 1)"
  from assms have "(?b + int i) div 12 = (?b + int j) div 12"
      and "(?b + int i) mod 12 = (?b + int j) mod 12"
    by (simp_all add: month_key_offset_def Let_def)
  then have "?b + int i = ?b + int j"
    by (metis div_mult_mod_eq)
  then show ?thesis by simp
qed

lemma projection_init_eq:
  "projection_init today =
     map (\<lambda>k. (k, \<lparr>Receitas = 0, Despesas = 0, Saldo = 0\<rparr>)) (future_months today)"
proof -
  have ne: "\<And>i j. i \<noteq> j \<Longrightarrow> month_key_offset today i \<noteq> month_key_offset today j"
    using month_key_offset_inj by blast
  have l: "[0..<4] = [0, 1, 2, 3]" by (simp add: upt_rec)
  show ?thesis
    unfolding projection_init_def future_months_def l
    using ne [of 0 1] ne [of 0 2] ne [of 0 3] ne [of 1 2] ne [of 1 3] ne [of 2 3]
      ne [of 1 0] ne [of 2 0] ne [of 3 0] ne [of 2 1] ne [of 3 1] ne [of 3 2]
    by (simp add: dict_set_def)
qed

lemma projecao_ok:
  assumes "list_all linha_ok rows"
  shows "projecao_fluxo_caixa today rows =
     Inr (map (\<lambda>k. (k, \<lparr>Receitas = sum_list (map (\<lambda>r. receitas_de today r k) rows),
                        Despesas = sum_list (map (\<lambda>r. despesas_de today r k) rows),
                        Saldo = sum_list (map (\<lambda>r. receitas_de today r k) rows)
                                - sum_list (map (\<lambda>r. despesas_de today r k) rows)\<rparr>))
            (future_months today))"
  by (simp add: projecao_fluxo_caixa_def iterrows_loop_ok [OF assms] projection_init_eq
      soma_R_def soma_D_def calcular_saldos_def)


section \<open>Properties of the projection\<close>




text \<open>The equations that evaluate the projection on a concrete frame.\<close>

lemmas avalia =
  projecao_fluxo_caixa_def projection_init_def future_months_def month_key_offset_def
  dict_set_def processa_linha_def linha_receita_def linha_despesa_def add_Receitas_def
  add_Despesas_def strftime_Ym_def date_less_def calcular_saldos_def Let_def
  Parcela_Unica_def Nao_def hoje_def receita_df_def despesa_df_def
  render_detailed_analysis_section_def upt_rec


lemma month_key_offset_0:
  "1 \<le> month today \<Longrightarrow> month today \<le> 12 \<Longrightarrow> month_key_offset today 0 = strftime_Ym today"
  by (auto simp: month_key_offset_def strftime_Ym_def Let_def)

lemma calcular_saldos_balance:
  "(k, b) \<in> set (calcular_saldos d) \<Longrightarrow> Saldo b = Receitas b - Despesas b"
  by (auto simp: calcular_saldos_def)

text \<open>
  Claim C3. With one income of 1000 dated in the current month under the single-payment
  plan and one expense of 300 dated in the current month with status \<open>'Pago'\<close> (and not
  recurring), the table has four months: the current one with income 1000, expenses 300
  and balance 700, and the next three with all three at zero. And in every table the
  section produces, from any frame, each month's balance is its income minus its expenses.
\<close>

theorem scenario_current_month:
  assumes "1 \<le> month today" and "month today \<le> 12"
    and "Tipo r1 = ''receita''" and "Valor r1 = 1000"
    and "strftime_Ym (Data r1) = strftime_Ym today"
    and "Forma_Recebimento r1 = Some Parcela_Unica"
    and "Tipo r2 = ''despesa''" and "Valor r2 = 300"
    and "strftime_Ym (Data r2) = strftime_Ym today" and "1 \<le> day (Data r2)"
    and "Status r2 = Some ''Pago''" and "Recorrente r2 \<noteq> Some ''Sim''"
  shows "render_detailed_analysis_section today [r1, r2] =
           Inr (Some [(strftime_Ym today, \<lparr>Receitas = 1000, Despesas = 300, Saldo = 700\<rparr>),
                      (month_key_offset today 1, \<lparr>Receitas = 0, Despesas = 0, Saldo = 0\<rparr>),
                      (month_key_offset today 2, \<lparr>Receitas = 0, Despesas = 0, Saldo = 0\<rparr>),
                      (month_key_offset today 3, \<lparr>Receitas = 0, Despesas = 0, Saldo = 0\<rparr>)])
       \<and> (render_detailed_analysis_section today df = Inr (Some proj)
            \<longrightarrow> (\<forall>(k, b) \<in> set proj. Saldo b = Receitas b - Despesas b))"
proof -
  have k0: "month_key_offset today 0 = strftime_Ym today"
    using assms(1,2) by (rule month_key_offset_0)
  have ne: "\<And>i. i \<noteq> 0 \<Longrightarrow> month_key_offset today i \<noteq> strftime_Ym today"
    using month_key_offset_inj [of today _ 0] k0 by auto
  have ok: "list_all linha_ok [r1, r2]"
    using assms by (simp add: linha_ok_def expande_def)
  have r1: "\<And>k. receitas_de today r1 k = (if k = strftime_Ym today then 1000 else 0)"
    using assms by (simp add: receitas_de_def expande_def)
  have r2: "\<And>k. receitas_de today r2 k = 0"
    using assms by (simp add: receitas_de_def)
  have d1: "\<And>k. despesas_de today r1 k = 0"
    using assms by (simp add: despesas_de_def)
  have "\<not> date_less (Data r2) (today\<lparr>day := 1\<rparr>)"
    using assms(9,10) by (auto simp: date_less_def strftime_Ym_def)
  then have d2: "\<And>k. despesas_de today r2 k = (if k = strftime_Ym today then 300 else 0)"
    using assms by (simp add: despesas_de_def)
  have l: "[0..<4] = [0, 1, 2, 3]" by (simp add: upt_rec)
  have a: "render_detailed_analysis_section today [r1, r2] =
           Inr (Some [(strftime_Ym today, \<lparr>Receitas = 1000, Despesas = 300, Saldo = 700\<rparr>),
                      (month_key_offset today 1, \<lparr>Receitas = 0, Despesas = 0, Saldo = 0\<rparr>),
                      (month_key_offset today 2, \<lparr>Receitas = 0, Despesas = 0, Saldo = 0\<rparr>),
                      (month_key_offset today 3, \<lparr>Receitas = 0, Despesas = 0, Saldo = 0\<rparr>)])"
    using ne [of 1] ne [of 2] ne [of 3]
    by (simp add: render_detailed_analysis_section_def projecao_ok [OF ok] future_months_def l
        r1 r2 d1 d2 k0)
  have b: "render_detailed_analysis_section today df = Inr (Some proj)
            \<longrightarrow> (\<forall>(k, b) \<in> set proj. Saldo b = Receitas b - Despesas b)"
    by (auto simp: render_detailed_analysis_section_def projecao_fluxo_caixa_def
        split: if_splits sum.splits dest: calcular_saldos_balance)
  from a b show ?thesis by blast
qed

theorem scenario_current_month_witness:
  "render_detailed_analysis_section hoje
     [receita_df \<lparr>year = 2024, month = 1, day = 10\<rparr> 1000 Parcela_Unica Vazio,
      despesa_df \<lparr>year = 2024, month = 1, day = 20\<rparr> 300 ''Pago'' Nao NaN]
   = Inr (Some [((2024, 1), \<lparr>Receitas = 1000, Despesas = 300, Saldo = 700\<rparr>),
                ((2024, 2), \<lparr>Receitas = 0, Despesas = 0, Saldo = 0\<rparr>),
                ((2024, 3), \<lparr>Receitas = 0, Despesas = 0, Saldo = 0\<rparr>),
                ((2024, 4), \<lparr>Receitas = 0, Despesas = 0, Saldo = 0\<rparr>)])"
  using scenario_current_month [where today = hoje
      and ?r1.0 = "receita_df \<lparr>year = 2024, month = 1, day = 10\<rparr> 1000 Parcela_Unica Vazio"
      and ?r2.0 = "despesa_df \<lparr>year = 2024, month = 1, day = 20\<rparr> 300 ''Pago'' Nao NaN"
      and df = "[receita_df \<lparr>year = 2024, month = 1, day = 10\<rparr> 1000 Parcela_Unica Vazio,
                 despesa_df \<lparr>year = 2024, month = 1, day = 20\<rparr> 300 ''Pago'' Nao NaN]"
      and proj = "[((2024, 1), \<lparr>Receitas = 1000, Despesas = 300, Saldo = 700\<rparr>),
                ((2024, 2), \<lparr>Receitas = 0, Despesas = 0, Saldo = 0\<rparr>),
                ((2024, 3), \<lparr>Receitas = 0, Despesas = 0, Saldo = 0\<rparr>),
                ((2024, 4), \<lparr>Receitas = 0, Despesas = 0, Saldo = 0\<rparr>)]"]
  by (simp add: hoje_def receita_df_def despesa_df_def strftime_Ym_def month_key_offset_def
      Nao_def)

lemma conta_parcelas_map:
  "conta_parcelas c k (map Data_str ds)
   = length (filter (\<lambda>p. strftime_Ym p = k \<and> date_less c p) ds)"
  by (induction ds) auto

text \<open>
  Claim C2. An income row whose plan is not one of the two labels without a count (so any
  plan denoting N instalments) and whose instalment dates are a list of N dates adds, to
  each month of the window, the full amount if the month is that of the row's own date,
  and on top of it the amount divided by N once for each instalment date of that month
  lying strictly after today. The instalments are added to the own-date contribution,
  they do not replace it. In the example a \<open>2x\<close> income of 1000 with two future dates in
  different months gives three contributions: 1000, 500 and 500.
\<close>

theorem installments_added:
  assumes "Tipo row = ''receita''"
    and "Forma_Recebimento row \<notin> {Some Parcela_Unica, Some ''Mais de 6x''}"
    and "Datas_Parcelas_Receita row = Json_lista (map Data_str ds)"
    and "length ds = N"
  shows "processa_linha today row d =
     Inr (map (\<lambda>(k, b). (k, b\<lparr>Receitas := Receitas b
              + ((if k = strftime_Ym (Data row) then Valor row else 0)
                 + Valor row / of_nat N
                   * of_nat (length (filter (\<lambda>p. strftime_Ym p = k \<and> date_less today p) ds)))\<rparr>))
            d)"
proof -
  have ok: "linha_ok row"
    using assms by (auto simp: linha_ok_def expande_def)
  have r: "receitas_de today row = (\<lambda>k. (if k = strftime_Ym (Data row) then Valor row else 0)
                 + Valor row / of_nat N
                   * of_nat (length (filter (\<lambda>p. strftime_Ym p = k \<and> date_less today p) ds)))"
    using assms by (auto simp: receitas_de_def expande_def conta_parcelas_map fun_eq_iff)
  have d: "despesas_de today row = (\<lambda>k. 0)"
    using assms by (auto simp: despesas_de_def fun_eq_iff)
  show ?thesis
    unfolding processa_linha_ok [OF ok] r d
    by (simp add: soma_D_zero) (simp add: soma_R_def)
qed

theorem installments_added_witness:
  "processa_linha hoje
     (receita_df \<lparr>year = 2024, month = 1, day = 10\<rparr> 1000 ''2x''
        (Json_lista [Data_str \<lparr>year = 2024, month = 2, day = 10\<rparr>,
                     Data_str \<lparr>year = 2024, month = 3, day = 10\<rparr>]))
     (projection_init hoje)
   = Inr [((2024, 1), \<lparr>Receitas = 1000, Despesas = 0, Saldo = 0\<rparr>),
          ((2024, 2), \<lparr>Receitas = 500, Despesas = 0, Saldo = 0\<rparr>),
          ((2024, 3), \<lparr>Receitas = 500, Despesas = 0, Saldo = 0\<rparr>),
          ((2024, 4), \<lparr>Receitas = 0, Despesas = 0, Saldo = 0\<rparr>)]"
  using installments_added [where today = hoje and d = "projection_init hoje" and N = 2
      and ds = "[\<lparr>year = 2024, month = 2, day = 10\<rparr>, \<lparr>year = 2024, month = 3, day = 10\<rparr>]"
      and row = "receita_df \<lparr>year = 2024, month = 1, day = 10\<rparr> 1000 ''2x''
        (Json_lista [Data_str \<lparr>year = 2024, month = 2, day = 10\<rparr>,
                     Data_str \<lparr>year = 2024, month = 3, day = 10\<rparr>])"]
  by (simp add: avalia)




lemma recurring_expense_raises_always:
  assumes "Tipo row = ''despesa''" and "Recorrente row = Some ''Sim''"
    and "Vezes_Recorrencia row = Inteiro n" and "n > 1"
  shows "processa_linha today row d = Inl AttributeError"
proof -
  from \<open>n > 1\<close> have "[1..n - 1] = 1 # [2..n - 1]"
    by (simp add: upto_rec1)
  with assms show ?thesis
    by (simp add: processa_linha_def linha_despesa_def Let_def)
qed

text \<open>
  Claim C1 (the code departs from it). A recurring expense with a count above one never
  has its later occurrences projected: the first pass through the recurrence loop raises
  \<open>AttributeError\<close>, for a whole-number count, and the projection is lost. The lemma
  above is the general fact, the theorem evaluates the projection on one such expense.
\<close>

theorem recurring_expense_raises:
  "projecao_fluxo_caixa \<lparr>year = 2024, month = 1, day = 10\<rparr>
     [despesa_df \<lparr>year = 2024, month = 1, day = 15\<rparr> 100 ''A Pagar'' ''Sim'' (Inteiro 3)]
   = Inl AttributeError"
  by (simp add: avalia upto_rec1)

section \<open>Properties of the password check\<close>


text \<open>The digest of \<open>abc\<close>, the first test vector of the standard.\<close>

lemma make_hashes_abc:
  "make_hashes ''abc'' = ''ba7816bf8f01cfea414140de5dae2223b00361a396177a9cb410ff61f20015ad''"
  by code_simp

end
